theory Spec2Isabelle
  imports Complex_Main "HOL-Library.Log_Nat" "HOL-Library.Sublist" "HOL-Library.AList"
begin

section \<open>Binary64 floating-point numbers\<close>

text \<open>
  The prices and totals of \<^verbatim>\<open>main.py\<close> are Python floats: IEEE 754 binary64 numbers. A finite
  float is modelled by the rational number it denotes; the two infinities and the
  not-a-number value are constructors of their own. The sign of a zero is not kept: no
  operation of the program observes it. Every arithmetic operation computes the exact
  rational result and rounds it to the nearest binary64 number, ties to the even
  significand, which is what the hardware does.
\<close>

datatype pyfloat = Num rat | PosInf | NegInf | NaN

definition pow2 :: "int \<Rightarrow> rat" where
  "pow2 e = (if 0 \<le> e then 2 ^ nat e else 1 / 2 ^ nat (- e))"

definition round_half_even :: "rat \<Rightarrow> int" where
  "round_half_even q =
     (let f = \<lfloor>q\<rfloor>; d = q - of_int f in
      if d < 1 / 2 then f else if 1 / 2 < d then f + 1 else if even f then f else f + 1)"

text \<open>The exponent \<open>e\<close> with \<open>2 ^ e \<le> q < 2 ^ (e + 1)\<close>, for a positive \<open>q\<close>.\<close>

definition floor_log2 :: "rat \<Rightarrow> int" where
  "floor_log2 q =
     (let (a, b) = quotient_of q; e = bitlen a - bitlen b in
      if pow2 e \<le> q then e else e - 1)"

text \<open>
  Rounding to binary64: 53 significant bits, exponents from \<open>-1022\<close> to \<open>1023\<close>, gradual
  underflow below, and an infinity when the rounded significand leaves the largest
  binade.
\<close>

definition rnd :: "rat \<Rightarrow> pyfloat" where
  "rnd q =
     (if q = 0 then Num 0
      else let e = max (floor_log2 \<bar>q\<bar>) (- 1022);
               m = round_half_even (q / pow2 (e - 52)) in
           if 1023 < e \<or> (e = 1023 \<and> \<bar>m\<bar> = 2 ^ 53)
           then (if 0 < q then PosInf else NegInf)
           else Num (of_int m * pow2 (e - 52)))"

fun fadd :: "pyfloat \<Rightarrow> pyfloat \<Rightarrow> pyfloat" where
  "fadd (Num a) (Num b) = rnd (a + b)"
| "fadd NaN _ = NaN"
| "fadd _ NaN = NaN"
| "fadd PosInf NegInf = NaN"
| "fadd NegInf PosInf = NaN"
| "fadd PosInf _ = PosInf"
| "fadd NegInf _ = NegInf"
| "fadd _ PosInf = PosInf"
| "fadd _ NegInf = NegInf"

definition inf_of_sign :: "bool \<Rightarrow> pyfloat" where
  "inf_of_sign positive = (if positive then PosInf else NegInf)"

fun fmul :: "pyfloat \<Rightarrow> pyfloat \<Rightarrow> pyfloat" where
  "fmul (Num a) (Num b) = rnd (a * b)"
| "fmul NaN _ = NaN"
| "fmul _ NaN = NaN"
| "fmul PosInf (Num b) = (if b = 0 then NaN else inf_of_sign (0 < b))"
| "fmul NegInf (Num b) = (if b = 0 then NaN else inf_of_sign (b < 0))"
| "fmul (Num a) PosInf = (if a = 0 then NaN else inf_of_sign (0 < a))"
| "fmul (Num a) NegInf = (if a = 0 then NaN else inf_of_sign (a < 0))"
| "fmul PosInf PosInf = PosInf"
| "fmul PosInf NegInf = NegInf"
| "fmul NegInf PosInf = NegInf"
| "fmul NegInf NegInf = PosInf"

text \<open>The comparison \<^verbatim>\<open>x >= y\<close>; every comparison with a not-a-number is false.\<close>

fun fge :: "pyfloat \<Rightarrow> pyfloat \<Rightarrow> bool" where
  "fge (Num a) (Num b) = (b \<le> a)"
| "fge NaN _ = False"
| "fge _ NaN = False"
| "fge PosInf _ = True"
| "fge _ NegInf = True"
| "fge NegInf _ = False"
| "fge _ PosInf = False"

text \<open>The comparison \<^verbatim>\<open>x == y\<close> of two floats.\<close>

fun feq :: "pyfloat \<Rightarrow> pyfloat \<Rightarrow> bool" where
  "feq NaN _ = False"
| "feq _ NaN = False"
| "feq x y = (x = y)"

text \<open>
  \<^verbatim>\<open>round(x, 2)\<close>: the interpreter rounds the exact value of \<open>x\<close> to two decimal places,
  ties to the even digit, and returns the float nearest to that decimal. Infinities and
  not-a-number round to themselves.
\<close>

fun py_round2 :: "pyfloat \<Rightarrow> pyfloat" where
  "py_round2 (Num q) = rnd (of_int (round_half_even (q * 100)) / 100)"
| "py_round2 x = x"


section \<open>Python values and the built-in coercions\<close>

text \<open>
  A decoded JSON body holds nulls, booleans, integers of any size, floats, strings,
  lists and dictionaries; a stored document also holds the identifier the store assigned
  to it. A dictionary is an association list whose keys are distinct.
\<close>

datatype oid = Oid nat

datatype pyval =
    PNone
  | PBool bool
  | PInt int
  | PFloat pyfloat
  | PStr string
  | PList "pyval list"
  | PDict "(string \<times> pyval) list"
  | PObjectId oid

type_synonym doc = "(string \<times> pyval) list"

text \<open>
  The outcomes other than a normal return: the three \<^verbatim>\<open>HTTPException\<close>s the handlers
  raise themselves (status 500, 400 and 404), the exceptions of the built-in coercions,
  which no handler catches, the rejection of an \<^verbatim>\<open>Order\<close> by its schema, and a failure
  reported by the store for a query.
\<close>

datatype error =
    StoreUnavailable
  | InvalidIdentifier
  | NotFound
  | TypeError
  | ValueError
  | OverflowError
  | ValidationError
  | OperationFailure

text \<open>\<^verbatim>\<open>d.get(k, default)\<close> and \<^verbatim>\<open>d.get(k)\<close>.\<close>

definition get :: "doc \<Rightarrow> string \<Rightarrow> pyval \<Rightarrow> pyval" where
  "get d k dflt = (case map_of d k of None \<Rightarrow> dflt | Some v \<Rightarrow> v)"

definition get_none :: "doc \<Rightarrow> string \<Rightarrow> pyval" where
  "get_none d k = get d k PNone"

text \<open>
  The conversion of an integer to a float rounds to nearest and raises
  \<^verbatim>\<open>OverflowError\<close> when the integer is beyond the largest float.
\<close>

definition float_of_int :: "int \<Rightarrow> error + pyfloat" where
  "float_of_int n = (case rnd (of_int n) of Num q \<Rightarrow> Inr (Num q) | _ \<Rightarrow> Inl OverflowError)"

text \<open>The conversion of a float to an integer truncates towards zero.\<close>

fun int_of_float :: "pyfloat \<Rightarrow> error + int" where
  "int_of_float (Num q) = Inr (if 0 \<le> q then \<lfloor>q\<rfloor> else - \<lfloor>- q\<rfloor>)"
| "int_of_float NaN = Inl ValueError"
| "int_of_float _ = Inl OverflowError"

subsection \<open>Orders, the store and the environment\<close>

record OrderItem =
  product_id :: string
  title :: string
  price :: pyfloat
  quantity :: int
  image :: pyval

record Order =
  items :: "OrderItem list"
  subtotal :: pyfloat
  shipping :: pyfloat
  taxes :: pyfloat
  total :: pyfloat
  customer_name :: string
  customer_email :: string
  customer_address :: string

record CreateOrderRequest =
  req_items :: "doc list"
  req_customer_name :: string
  req_customer_email :: string
  req_customer_address :: string

text \<open>
  The store holds the product documents and the orders, each order under the identifier
  it was given. The handle \<^verbatim>\<open>db\<close> is \<^verbatim>\<open>None\<close> when no store is configured.
\<close>

record store =
  products :: "doc list"
  orders :: "(oid \<times> Order) list"
  next_id :: nat

text \<open>
  How the interpreter reads a number out of a string and how it prints a value that is
  not a string are not part of this program, nor is the identifier syntax of the store's
  driver: they are parameters of the model. So are the schema of \<^verbatim>\<open>Order\<close> (module
  \<^verbatim>\<open>schemas\<close>) and the query function \<^verbatim>\<open>get_documents\<close> (module \<^verbatim>\<open>database\<close>).
\<close>

record env =
  float_of_str :: "string \<Rightarrow> pyfloat option"
  int_of_str :: "string \<Rightarrow> int option"
  str_of :: "pyval \<Rightarrow> string"
  ObjectId :: "string \<Rightarrow> oid option"
  Order_valid :: "Order \<Rightarrow> bool"
  get_documents :: "store \<Rightarrow> string \<Rightarrow> doc \<Rightarrow> int \<Rightarrow> error + doc list"

subsection \<open>Coercions\<close>

fun py_float :: "env \<Rightarrow> pyval \<Rightarrow> error + pyfloat" where
  "py_float E (PFloat x) = Inr x"
| "py_float E (PInt n) = float_of_int n"
| "py_float E (PBool b) = Inr (Num (if b then 1 else 0))"
| "py_float E (PStr s) = (case float_of_str E s of None \<Rightarrow> Inl ValueError | Some x \<Rightarrow> Inr x)"
| "py_float E _ = Inl TypeError"

fun py_int :: "env \<Rightarrow> pyval \<Rightarrow> error + int" where
  "py_int E (PInt n) = Inr n"
| "py_int E (PFloat x) = int_of_float x"
| "py_int E (PBool b) = Inr (if b then 1 else 0)"
| "py_int E (PStr s) = (case int_of_str E s of None \<Rightarrow> Inl ValueError | Some n \<Rightarrow> Inr n)"
| "py_int E _ = Inl TypeError"

fun py_str :: "env \<Rightarrow> pyval \<Rightarrow> string" where
  "py_str E (PStr s) = s"
| "py_str E v = str_of E v"

fun py_bool :: "pyval \<Rightarrow> bool" where
  "py_bool PNone = False"
| "py_bool (PBool b) = b"
| "py_bool (PInt n) = (n \<noteq> 0)"
| "py_bool (PFloat x) = (x \<noteq> Num 0)"
| "py_bool (PStr s) = (s \<noteq> [])"
| "py_bool (PList xs) = (xs \<noteq> [])"
| "py_bool (PDict d) = (d \<noteq> [])"
| "py_bool (PObjectId i) = True"

text \<open>\<^verbatim>\<open>x * n\<close> for a float \<open>x\<close> and an integer \<open>n\<close>: the integer is converted first.\<close>

definition fmul_int :: "pyfloat \<Rightarrow> int \<Rightarrow> error + pyfloat" where
  "fmul_int x n = (case float_of_int n of Inl e \<Rightarrow> Inl e | Inr y \<Rightarrow> Inr (fmul x y))"

section \<open>Persistence and the schema of an order\<close>

text \<open>
  Modelled from the spec: \<^verbatim>\<open>create_document\<close> of module \<^verbatim>\<open>database\<close> is not among the
  sources. The specification has it persist the order in the document store and return
  the identifier the store assigned.
\<close>

definition create_document :: "env \<Rightarrow> store \<Rightarrow> Order \<Rightarrow> string \<times> store" where
  "create_document E st order_doc =
     (let i = Oid (next_id st) in
      (py_str E (PObjectId i),
       st\<lparr>orders := orders st @ [(i, order_doc)], next_id := Suc (next_id st)\<rparr>))"

text \<open>
  Modelled from the spec: the schema \<^verbatim>\<open>Order\<close> of module \<^verbatim>\<open>schemas\<close> is not among the
  sources. The data model of the specification bounds each line item: a price that is at
  least 0 and a quantity that is at least 1.
\<close>

definition Order_schema :: "Order \<Rightarrow> bool" where
  "Order_schema order_doc =
     list_all (\<lambda>it. fge (price it) (Num 0) \<and> 1 \<le> quantity it) (items order_doc)"

section \<open>Creating an order\<close>

text \<open>The float literals of the handler.\<close>

definition lit_6_99 :: pyfloat where
  "lit_6_99 = rnd (699 / 100)"

definition lit_0_07 :: pyfloat where
  "lit_0_07 = rnd (7 / 100)"

text \<open>One term of the sum: \<^verbatim>\<open>float(i.get("price", 0)) * int(i.get("quantity", 1))\<close>.\<close>

definition line_total :: "env \<Rightarrow> doc \<Rightarrow> error + pyfloat" where
  "line_total E i =
     (case py_float E (get i ''price'' (PInt 0)) of
        Inl e \<Rightarrow> Inl e
      | Inr p \<Rightarrow>
          (case py_int E (get i ''quantity'' (PInt 1)) of
             Inl e \<Rightarrow> Inl e
           | Inr n \<Rightarrow> fmul_int p n))"

text \<open>
  \<^verbatim>\<open>sum\<close> adds the terms from the left, starting from 0; the first exception ends it.
  (An interpreter that compensates the rounding errors of a float sum returns the same
  for no term and for one term.)
\<close>

fun sum_from :: "env \<Rightarrow> pyfloat \<Rightarrow> doc list \<Rightarrow> error + pyfloat" where
  "sum_from E acc [] = Inr acc"
| "sum_from E acc (i # rest) =
     (case line_total E i of
        Inl e \<Rightarrow> Inl e
      | Inr x \<Rightarrow> sum_from E (fadd acc x) rest)"

definition raw_subtotal :: "env \<Rightarrow> doc list \<Rightarrow> error + pyfloat" where
  "raw_subtotal E its = sum_from E (Num 0) its"

text \<open>The dictionary built for one line item of the order.\<close>

definition order_item :: "env \<Rightarrow> doc \<Rightarrow> error + OrderItem" where
  "order_item E i =
     (case py_float E (get i ''price'' (PInt 0)) of
        Inl e \<Rightarrow> Inl e
      | Inr p \<Rightarrow>
          (case py_int E (get i ''quantity'' (PInt 1)) of
             Inl e \<Rightarrow> Inl e
           | Inr n \<Rightarrow>
               Inr \<lparr>product_id = py_str E (get i ''product_id'' (PStr [])),
                    title = py_str E (get i ''title'' (PStr [])),
                    price = p,
                    quantity = n,
                    image = get_none i ''image''\<rparr>))"

fun order_items :: "env \<Rightarrow> doc list \<Rightarrow> error + OrderItem list" where
  "order_items E [] = Inr []"
| "order_items E (i # rest) =
     (case order_item E i of
        Inl e \<Rightarrow> Inl e
      | Inr it \<Rightarrow>
          (case order_items E rest of
             Inl e \<Rightarrow> Inl e
           | Inr its \<Rightarrow> Inr (it # its)))"

text \<open>
  The handler of \<^verbatim>\<open>POST /api/orders\<close>. It returns the response or the error, and the store
  as the request leaves it.
\<close>

definition create_order ::
  "env \<Rightarrow> store option \<Rightarrow> CreateOrderRequest \<Rightarrow> (error + doc) \<times> store option" where
  "create_order E db payload =
     (case db of
        None \<Rightarrow> (Inl StoreUnavailable, db)
      | Some st \<Rightarrow>
          (case raw_subtotal E (req_items payload) of
             Inl e \<Rightarrow> (Inl e, db)
           | Inr subtotal' \<Rightarrow>
               (let shipping' = (if fge subtotal' (Num 50) then Num 0 else lit_6_99);
                    taxes' = py_round2 (fmul subtotal' lit_0_07);
                    total' = py_round2 (fadd (fadd subtotal' shipping') taxes')
                in case order_items E (req_items payload) of
                     Inl e \<Rightarrow> (Inl e, db)
                   | Inr its \<Rightarrow>
                       (let order_doc =
                              \<lparr>items = its,
                               subtotal = py_round2 subtotal',
                               shipping = py_round2 shipping',
                               taxes = taxes',
                               total = total',
                               customer_name = req_customer_name payload,
                               customer_email = req_customer_email payload,
                               customer_address = req_customer_address payload\<rparr>
                        in if \<not> Order_valid E order_doc then (Inl ValidationError, db)
                           else (case create_document E st order_doc of
                                   (order_id, st') \<Rightarrow>
                                     (Inr [(''order_id'', PStr order_id),
                                           (''total'', PFloat total')],
                                      Some st'))))))"


section \<open>Listing and fetching products\<close>

text \<open>
  The filter document of \<^verbatim>\<open>list_products\<close>. An absent parameter and an empty string are
  both false in the tests \<^verbatim>\<open>if category:\<close> and \<^verbatim>\<open>if q:\<close>.
\<close>

definition regex_cond :: "string \<Rightarrow> string \<Rightarrow> pyval" where
  "regex_cond field q =
     PDict [(field, PDict [(''$regex'', PStr q), (''$options'', PStr ''i'')])]"

definition filter_dict :: "string option \<Rightarrow> string option \<Rightarrow> doc" where
  "filter_dict category q =
     (case category of
        None \<Rightarrow> []
      | Some c \<Rightarrow> if c = [] then [] else [(''category'', PStr c)])
     @
     (case q of
        None \<Rightarrow> []
      | Some t \<Rightarrow>
          if t = [] then []
          else [(''$or'', PList [regex_cond ''title'' t,
                                   regex_cond ''description'' t,
                                   regex_cond ''category'' t])])"

definition lit_4_5 :: pyfloat where
  "lit_4_5 = rnd (9 / 2)"

text \<open>The public view of one stored product.\<close>

definition product_view :: "env \<Rightarrow> doc \<Rightarrow> error + doc" where
  "product_view E d =
     (case py_float E (get d ''price'' (PInt 0)) of
        Inl e \<Rightarrow> Inl e
      | Inr p \<Rightarrow>
          (case py_float E (get d ''rating'' (PFloat lit_4_5)) of
             Inl e \<Rightarrow> Inl e
           | Inr r \<Rightarrow>
               Inr [(''id'', PStr (py_str E (get_none d ''_id''))),
                    (''title'', get_none d ''title''),
                    (''description'', get_none d ''description''),
                    (''price'', PFloat p),
                    (''category'', get d ''category'' (PStr ''Other'')),
                    (''image'', get_none d ''image''),
                    (''rating'', PFloat r),
                    (''in_stock'', PBool (py_bool (get d ''in_stock'' (PBool True))))]))"

fun product_views :: "env \<Rightarrow> doc list \<Rightarrow> error + doc list" where
  "product_views E [] = Inr []"
| "product_views E (d # docs) =
     (case product_view E d of
        Inl e \<Rightarrow> Inl e
      | Inr item \<Rightarrow>
          (case product_views E docs of
             Inl e \<Rightarrow> Inl e
           | Inr result \<Rightarrow> Inr (item # result)))"

definition list_products ::
  "env \<Rightarrow> store option \<Rightarrow> string option \<Rightarrow> string option \<Rightarrow> int \<Rightarrow> error + doc list" where
  "list_products E db category q limit =
     (case db of
        None \<Rightarrow> Inl StoreUnavailable
      | Some st \<Rightarrow>
          (case get_documents E st ''product'' (filter_dict category q) limit of
             Inl e \<Rightarrow> Inl e
           | Inr docs \<Rightarrow> product_views E docs))"

text \<open>\<^verbatim>\<open>find_one({"_id": oid})\<close>: the first product stored under the identifier.\<close>

definition find_one :: "doc list \<Rightarrow> oid \<Rightarrow> doc option" where
  "find_one coll i = find (\<lambda>d. map_of d ''_id'' = Some (PObjectId i)) coll"

text \<open>
  The handler of \<^verbatim>\<open>GET /api/products/{product_id}\<close>. \<^verbatim>\<open>doc.pop("_id")\<close> removes the key and
  \<^verbatim>\<open>doc["id"] = ...\<close> replaces the value of an existing key in place or appends the new
  key.
\<close>

definition get_product :: "env \<Rightarrow> store option \<Rightarrow> string \<Rightarrow> error + doc" where
  "get_product E db product_id' =
     (case db of
        None \<Rightarrow> Inl StoreUnavailable
      | Some st \<Rightarrow>
          (case ObjectId E product_id' of
             None \<Rightarrow> Inl InvalidIdentifier
           | Some i \<Rightarrow>
               (case find_one (products st) i of
                  None \<Rightarrow> Inl NotFound
                | Some d \<Rightarrow>
                    if d = [] then Inl NotFound
                    else Inr (AList.update ''id''
                                (PStr (py_str E (get_none d ''_id'')))
                                (AList.delete ''_id'' d)))))"

section \<open>The query language of the store\<close>

text \<open>
  The store evaluates the filter document. Its query language is modelled as far as
  \<^verbatim>\<open>filter_dict\<close> uses it: a field condition is an equality with a string or a
  case-insensitive \<^verbatim>\<open>$regex\<close>, the conditions of one document are a conjunction, and
  \<^verbatim>\<open>$or\<close> is the disjunction of its clauses. A field that holds an array satisfies a
  condition when one of its elements does. A regular expression is modelled when it is
  made of ASCII characters that stand for themselves and of the dot, which stands for any
  character but a newline; for every other query the model gives no answer (\<open>None\<close>).
\<close>

definition to_lower :: "char \<Rightarrow> char" where
  "to_lower c =
     (let n = (of_char c :: nat) in if 65 \<le> n \<and> n \<le> 90 then char_of (n + 32) else c)"

definition regex_special :: "char \<Rightarrow> bool" where
  "regex_special c = (c = CHR 0x5C \<or> c \<in> set ''^$.|?*+()[]{}'')"

definition literal_char :: "char \<Rightarrow> bool" where
  "literal_char c = (0 < (of_char c :: nat) \<and> (of_char c :: nat) < 128 \<and> \<not> regex_special c)"

datatype atom = Lit char | AnyChar

fun parse_regex :: "string \<Rightarrow> atom list option" where
  "parse_regex [] = Some []"
| "parse_regex (c # cs) =
     (if c = CHR ''.'' then map_option ((#) AnyChar) (parse_regex cs)
      else if literal_char c then map_option ((#) (Lit c)) (parse_regex cs)
      else None)"

fun atom_matches :: "atom \<Rightarrow> char \<Rightarrow> bool" where
  "atom_matches (Lit c) x = (to_lower x = to_lower c)"
| "atom_matches AnyChar x = (x \<noteq> CHR 0x0A)"

fun match_here :: "atom list \<Rightarrow> string \<Rightarrow> bool" where
  "match_here [] s = True"
| "match_here (a # as) [] = False"
| "match_here (a # as) (x # xs) = (atom_matches a x \<and> match_here as xs)"

text \<open>An unanchored search: the pattern matches at some position of the subject.\<close>

fun regex_search :: "atom list \<Rightarrow> string \<Rightarrow> bool" where
  "regex_search as [] = match_here as []"
| "regex_search as (x # xs) = (match_here as (x # xs) \<or> regex_search as xs)"

fun regex_element :: "atom list \<Rightarrow> pyval \<Rightarrow> bool" where
  "regex_element as (PStr s) = regex_search as s"
| "regex_element as _ = False"

fun regex_value :: "atom list \<Rightarrow> pyval \<Rightarrow> bool" where
  "regex_value as (PList vs) = list_ex (regex_element as) vs"
| "regex_value as v = regex_element as v"

fun eq_value :: "string \<Rightarrow> pyval \<Rightarrow> bool" where
  "eq_value c (PList vs) = list_ex (\<lambda>v. v = PStr c) vs"
| "eq_value c v = (v = PStr c)"

definition field_name :: "string \<Rightarrow> bool" where
  "field_name k = (k \<noteq> [] \<and> CHR ''$'' \<notin> set k \<and> CHR ''.'' \<notin> set k)"

text \<open>One field condition \<open>k: v\<close>, against the value the document has for \<open>k\<close>.\<close>

definition field_cond :: "pyval \<Rightarrow> pyval option \<Rightarrow> bool option" where
  "field_cond v fv =
     (case v of
        PStr c \<Rightarrow> Some (case fv of None \<Rightarrow> False | Some w \<Rightarrow> eq_value c w)
      | PDict ops \<Rightarrow>
          (case ops of
             [(k1, PStr r), (k2, PStr opts)] \<Rightarrow>
               if k1 = ''$regex'' \<and> k2 = ''$options'' \<and> opts = ''i''
               then (case parse_regex r of
                       None \<Rightarrow> None
                     | Some as \<Rightarrow>
                         Some (case fv of None \<Rightarrow> False | Some w \<Rightarrow> regex_value as w))
               else None
           | _ \<Rightarrow> None)
      | _ \<Rightarrow> None)"

definition and_option :: "bool option \<Rightarrow> bool option \<Rightarrow> bool option" where
  "and_option a b =
     (case a of None \<Rightarrow> None | Some x \<Rightarrow> (case b of None \<Rightarrow> None | Some y \<Rightarrow> Some (x \<and> y)))"

definition or_option :: "bool option \<Rightarrow> bool option \<Rightarrow> bool option" where
  "or_option a b =
     (case a of None \<Rightarrow> None | Some x \<Rightarrow> (case b of None \<Rightarrow> None | Some y \<Rightarrow> Some (x \<or> y)))"

fun conds_match :: "doc \<Rightarrow> doc \<Rightarrow> bool option" where
  "conds_match [] d = Some True"
| "conds_match ((k, v) # rest) d =
     (if field_name k then and_option (field_cond v (map_of d k)) (conds_match rest d)
      else None)"

fun or_match :: "pyval list \<Rightarrow> doc \<Rightarrow> bool option" where
  "or_match [] d = Some False"
| "or_match (PDict conds # clauses) d = or_option (conds_match conds d) (or_match clauses d)"
| "or_match (_ # clauses) d = None"

fun query_matches :: "doc \<Rightarrow> doc \<Rightarrow> bool option" where
  "query_matches [] d = Some True"
| "query_matches ((k, v) # rest) d =
     and_option
       (if k = ''$or''
        then (case v of PList (c # cs) \<Rightarrow> or_match (c # cs) d | _ \<Rightarrow> None)
        else if field_name k then field_cond v (map_of d k)
        else None)
       (query_matches rest d)"

text \<open>
  What the specification says of the free-text filter: a field contains the text as a
  substring, letter case ignored.
\<close>

definition ci_contains :: "string \<Rightarrow> string \<Rightarrow> bool" where
  "ci_contains q s = sublist (map to_lower q) (map to_lower s)"

definition field_contains :: "string \<Rightarrow> doc \<Rightarrow> string \<Rightarrow> bool" where
  "field_contains q d k = (case map_of d k of Some (PStr s) \<Rightarrow> ci_contains q s | _ \<Rightarrow> False)"

definition text_selected :: "string \<Rightarrow> doc \<Rightarrow> bool" where
  "text_selected q d =
     (field_contains q d ''title'' \<or> field_contains q d ''description''
      \<or> field_contains q d ''category'')"

definition category_selected :: "string \<Rightarrow> doc \<Rightarrow> bool" where
  "category_selected c d = (map_of d ''category'' = Some (PStr c))"

definition is_array :: "pyval option \<Rightarrow> bool" where
  "is_array fv = (case fv of Some (PList vs) \<Rightarrow> True | _ \<Rightarrow> False)"

definition scalar_fields :: "doc \<Rightarrow> bool" where
  "scalar_fields d =
     (\<not> is_array (map_of d ''title'') \<and> \<not> is_array (map_of d ''description'')
      \<and> \<not> is_array (map_of d ''category''))"


section \<open>Vocabulary of the properties\<close>

text \<open>
  The store after a request holds one more order than the store before it: \<open>o\<close>, under
  the next identifier.
\<close>

definition placed :: "store \<Rightarrow> store option \<Rightarrow> Order \<Rightarrow> bool" where
  "placed st db' o' =
     (db' = Some (st\<lparr>orders := orders st @ [(Oid (next_id st), o')],
                     next_id := Suc (next_id st)\<rparr>))"

text \<open>
  What the specification says of a persisted line item: each field is the coercion of
  the raw field, or its default when the raw item has no such key.
\<close>

definition coerced :: "env \<Rightarrow> doc \<Rightarrow> OrderItem \<Rightarrow> bool" where
  "coerced E i it =
     ((case map_of i ''price'' of
         None \<Rightarrow> price it = Num 0
       | Some v \<Rightarrow> py_float E v = Inr (price it))
      \<and> (case map_of i ''quantity'' of
            None \<Rightarrow> quantity it = 1
          | Some v \<Rightarrow> py_int E v = Inr (quantity it))
      \<and> (case map_of i ''product_id'' of
            None \<Rightarrow> product_id it = []
          | Some v \<Rightarrow> product_id it = py_str E v)
      \<and> (case map_of i ''title'' of
            None \<Rightarrow> title it = []
          | Some v \<Rightarrow> title it = py_str E v))"

section \<open>An environment and a store for examples\<close>

text \<open>
  The theorems below hold for every environment. To run the handlers on examples, this
  one reads a string of decimal digits as a number, prints an identifier as 24
  hexadecimal digits and reads it back, applies the line item bounds as the schema of
  an order, and answers a query as \<open>find_many\<close> does.
\<close>

fun digits_value :: "nat \<Rightarrow> string \<Rightarrow> nat option" where
  "digits_value acc [] = Some acc"
| "digits_value acc (c # cs) =
     (let n = (of_char c :: nat) in
      if 48 \<le> n \<and> n \<le> 57 then digits_value (10 * acc + (n - 48)) cs else None)"

definition decimal :: "string \<Rightarrow> nat option" where
  "decimal s = (if s = [] then None else digits_value 0 s)"

definition hex_digit :: "nat \<Rightarrow> char" where
  "hex_digit n = ''0123456789abcdef'' ! (n mod 16)"

fun hex_of :: "nat \<Rightarrow> nat \<Rightarrow> string" where
  "hex_of 0 n = []"
| "hex_of (Suc w) n = hex_of w (n div 16) @ [hex_digit n]"

fun hex_value :: "nat \<Rightarrow> string \<Rightarrow> nat option" where
  "hex_value acc [] = Some acc"
| "hex_value acc (c # cs) =
     (let n = (of_char (to_lower c) :: nat) in
      if 48 \<le> n \<and> n \<le> 57 then hex_value (16 * acc + (n - 48)) cs
      else if 97 \<le> n \<and> n \<le> 102 then hex_value (16 * acc + (n - 87)) cs
      else None)"

text \<open>
  Modelled from the spec: \<^verbatim>\<open>get_documents\<close> of module \<^verbatim>\<open>database\<close> is not among the
  sources. The specification has the store return the records of the collection that
  match the filter, in its own order, capped at the limit.
\<close>

definition find_many :: "store \<Rightarrow> string \<Rightarrow> doc \<Rightarrow> int \<Rightarrow> error + doc list" where
  "find_many st coll flt limit =
     (if coll = ''product''
      then Inr (take (nat limit) (filter (\<lambda>d. query_matches flt d = Some True) (products st)))
      else Inr [])"

fun example_str :: "pyval \<Rightarrow> string" where
  "example_str (PObjectId (Oid n)) = hex_of 24 n"
| "example_str PNone = ''None''"
| "example_str (PBool b) = (if b then ''True'' else ''False'')"
| "example_str v = []"

definition example_env :: env where
  "example_env =
     \<lparr>float_of_str = (\<lambda>s. map_option (\<lambda>n. rnd (of_nat n)) (decimal s)),
      int_of_str = (\<lambda>s. map_option int (decimal s)),
      str_of = example_str,
      ObjectId = (\<lambda>s. if length s = 24 then map_option Oid (hex_value 0 s) else None),
      Order_valid = Order_schema,
      get_documents = find_many\<rparr>"

text \<open>The store after seeding two of the demonstration products.\<close>

definition headphones :: doc where
  "headphones =
     [(''_id'', PObjectId (Oid 1)),
      (''title'', PStr ''Wireless Noise-Cancelling Headphones''),
      (''description'', PStr ''Immersive sound with active noise cancellation and 30h battery.''),
      (''price'', PFloat (rnd (19999 / 100))),
      (''category'', PStr ''Electronics''),
      (''rating'', PFloat (rnd (46 / 10))),
      (''in_stock'', PBool True)]"

definition chair :: doc where
  "chair =
     [(''_id'', PObjectId (Oid 2)),
      (''title'', PStr ''Ergonomic Office Chair''),
      (''description'', PStr ''Lumbar support, breathable mesh, adjustable height and tilt.''),
      (''price'', PFloat (Num 129)),
      (''category'', PStr ''Home''),
      (''rating'', PFloat (rnd (44 / 10))),
      (''in_stock'', PBool True)]"

definition example_store :: store where
  "example_store = \<lparr>products = [headphones, chair], orders = [], next_id = 3\<rparr>"

definition request :: "doc list \<Rightarrow> CreateOrderRequest" where
  "request its =
     \<lparr>req_items = its,
      req_customer_name = ''Ada'',
      req_customer_email = ''ada@example.org'',
      req_customer_address = ''1 Main Street''\<rparr>"


text \<open>
  Three order submissions: the two worked examples of the specification, and one item
  priced at five eighths. The orders the handler builds from them follow.
\<close>

definition two_at_30 :: "doc list" where
  "two_at_30 = [[(''price'', PInt 30), (''quantity'', PInt 2)]]"

definition one_at_10 :: "doc list" where
  "one_at_10 = [[(''price'', PInt 10), (''quantity'', PInt 1)]]"

definition five_eighths :: "doc list" where
  "five_eighths =
     [[(''product_id'', PStr ''000000000000000000000002''),
       (''title'', PStr ''Felt pad''),
       (''price'', PFloat (Num (5 / 8))),
       (''quantity'', PInt 1)]]"

definition example_order ::
  "OrderItem list \<Rightarrow> pyfloat \<Rightarrow> pyfloat \<Rightarrow> pyfloat \<Rightarrow> pyfloat \<Rightarrow> Order" where
  "example_order its sub sh tx tot =
     \<lparr>items = its, subtotal = sub, shipping = sh, taxes = tx, total = tot,
      customer_name = ''Ada'',
      customer_email = ''ada@example.org'',
      customer_address = ''1 Main Street''\<rparr>"

definition unnamed_item :: "pyfloat \<Rightarrow> int \<Rightarrow> OrderItem" where
  "unnamed_item p n = \<lparr>product_id = [], title = [], price = p, quantity = n, image = PNone\<rparr>"

definition order_64_20 :: Order where
  "order_64_20 =
     example_order [unnamed_item (Num 30) 2] (Num 60) (Num 0) (rnd (420 / 100)) (rnd (6420 / 100))"

definition order_17_69 :: Order where
  "order_17_69 =
     example_order [unnamed_item (Num 10) 1] (Num 10) (rnd (699 / 100)) (rnd (70 / 100))
       (rnd (1769 / 100))"

definition order_7_66 :: Order where
  "order_7_66 =
     example_order
       [\<lparr>product_id = ''000000000000000000000002'', title = ''Felt pad'',
         price = Num (5 / 8), quantity = 1, image = PNone\<rparr>]
       (rnd (62 / 100)) (rnd (699 / 100)) (rnd (4 / 100)) (rnd (766 / 100))"

definition stored :: "Order \<Rightarrow> store option" where
  "stored o' = Some (example_store\<lparr>orders := [(Oid 3, o')], next_id := 4\<rparr>)"

definition created :: "pyfloat \<Rightarrow> doc" where
  "created t = [(''order_id'', PStr ''000000000000000000000003''), (''total'', PFloat t)]"

section \<open>Facts about the literals and the coercions\<close>

lemma lit_6_99_value: "lit_6_99 = Num (3935020174414971 / 562949953421312)"
  by code_simp

lemma round_lit_6_99: "py_round2 lit_6_99 = lit_6_99"
  by code_simp

lemma round_zero: "py_round2 (Num 0) = Num 0"
  by code_simp

lemma lit_6_99_nonzero: "lit_6_99 \<noteq> Num 0"
  by (simp add: lit_6_99_value)

lemma float_of_int_zero: "float_of_int 0 = Inr (Num 0)"
  by (simp add: float_of_int_def rnd_def)

section \<open>Order creation: what a success and a failure mean\<close>

text \<open>
  A successful request has a raw subtotal and a list of coerced items, its order passed
  the schema, and the store gained exactly that order. Rounding the shipping charge to
  two decimals does not change it, so the shipping charge of the order is the computed
  one.
\<close>

lemma create_order_success:
  assumes "create_order E db payload = (Inr resp, db')"
  shows "\<exists>st s its o'.
           db = Some st
         \<and> raw_subtotal E (req_items payload) = Inr s
         \<and> order_items E (req_items payload) = Inr its
         \<and> Order_valid E o'
         \<and> items o' = its
         \<and> subtotal o' = py_round2 s
         \<and> shipping o' = (if fge s (Num 50) then Num 0 else lit_6_99)
         \<and> taxes o' = py_round2 (fmul s lit_0_07)
         \<and> total o' = py_round2 (fadd (fadd s (shipping o')) (taxes o'))
         \<and> customer_name o' = req_customer_name payload
         \<and> customer_email o' = req_customer_email payload
         \<and> customer_address o' = req_customer_address payload
         \<and> placed st db' o'
         \<and> resp = [(''order_id'', PStr (py_str E (PObjectId (Oid (next_id st))))),
                    (''total'', PFloat (total o'))]"
proof -
  let ?its = "req_items payload"
  from assms obtain st where db: "db = Some st"
    by (auto simp: create_order_def split: option.splits)
  from assms db obtain s where s: "raw_subtotal E ?its = Inr s"
    by (auto simp: create_order_def split: sum.splits)
  from assms db s obtain its where its: "order_items E ?its = Inr its"
    by (auto simp: create_order_def Let_def split: sum.splits)
  define sh where "sh = (if fge s (Num 50) then Num 0 else lit_6_99)"
  define o' where
    "o' = \<lparr>items = its, subtotal = py_round2 s, shipping = py_round2 sh,
           taxes = py_round2 (fmul s lit_0_07),
           total = py_round2 (fadd (fadd s sh) (py_round2 (fmul s lit_0_07))),
           customer_name = req_customer_name payload,
           customer_email = req_customer_email payload,
           customer_address = req_customer_address payload\<rparr>"
  have sh: "py_round2 sh = sh"
    unfolding sh_def using round_lit_6_99 round_zero by (simp del: py_round2.simps)
  from assms db s its have valid: "Order_valid E o'"
    and db': "placed st db' o'"
    and resp: "resp = [(''order_id'', PStr (py_str E (PObjectId (Oid (next_id st))))),
                       (''total'', PFloat (total o'))]"
    unfolding create_order_def o'_def sh_def placed_def
    by (auto simp: Let_def create_document_def simp del: py_round2.simps split: if_splits)
  have fields: "items o' = its" "subtotal o' = py_round2 s" "shipping o' = sh"
    "taxes o' = py_round2 (fmul s lit_0_07)"
    "total o' = py_round2 (fadd (fadd s (shipping o')) (taxes o'))"
    "customer_name o' = req_customer_name payload"
    "customer_email o' = req_customer_email payload"
    "customer_address o' = req_customer_address payload"
    using sh by (simp_all add: o'_def del: py_round2.simps)
  show ?thesis
    using db s its valid db' resp fields unfolding sh_def by blast
qed


lemma py_float_errors: "py_float E v = Inl e \<Longrightarrow> e \<in> {TypeError, ValueError, OverflowError}"
  by (cases v) (auto simp: float_of_int_def split: pyfloat.splits option.splits)

lemma int_of_float_errors: "int_of_float x = Inl e \<Longrightarrow> e \<in> {TypeError, ValueError, OverflowError}"
  by (cases x) auto

lemma py_int_errors: "py_int E v = Inl e \<Longrightarrow> e \<in> {TypeError, ValueError, OverflowError}"
  by (cases v) (auto dest: int_of_float_errors split: option.splits)

lemma fmul_int_errors: "fmul_int x n = Inl e \<Longrightarrow> e \<in> {TypeError, ValueError, OverflowError}"
  by (auto simp: fmul_int_def float_of_int_def split: pyfloat.splits sum.splits)

lemma line_total_errors: "line_total E i = Inl e \<Longrightarrow> e \<in> {TypeError, ValueError, OverflowError}"
  unfolding line_total_def
  by (auto dest: py_float_errors py_int_errors fmul_int_errors split: sum.splits)

lemma sum_from_errors:
  "sum_from E acc its = Inl e \<Longrightarrow> e \<in> {TypeError, ValueError, OverflowError}"
proof (induction its arbitrary: acc)
  case Nil
  then show ?case by simp
next
  case (Cons i rest)
  show ?case
  proof (cases "line_total E i")
    case (Inl e')
    with Cons.prems have "e = e'" by simp
    with Inl show ?thesis by (auto dest: line_total_errors)
  next
    case (Inr x)
    with Cons.prems have "sum_from E (fadd acc x) rest = Inl e" by simp
    then show ?thesis by (rule Cons.IH)
  qed
qed

lemma line_total_order_item:
  "line_total E i = Inr x \<Longrightarrow> \<exists>it. order_item E i = Inr it"
  unfolding line_total_def order_item_def by (auto split: sum.splits)

lemma sum_from_order_items:
  "sum_from E acc its = Inr s \<Longrightarrow> \<exists>xs. order_items E its = Inr xs"
proof (induction its arbitrary: acc)
  case Nil
  then show ?case by simp
next
  case (Cons i rest)
  from Cons.prems obtain x where x: "line_total E i = Inr x"
    and rest: "sum_from E (fadd acc x) rest = Inr s"
    by (auto split: sum.splits)
  from x obtain it where "order_item E i = Inr it"
    by (auto dest: line_total_order_item)
  moreover from rest obtain xs where "order_items E rest = Inr xs"
    by (auto dest: Cons.IH)
  ultimately show ?case by simp
qed

lemma order_item_coerced: "order_item E i = Inr it \<Longrightarrow> coerced E i it"
  unfolding order_item_def coerced_def get_def
  by (auto simp: float_of_int_zero split: sum.splits option.splits)

lemma order_items_coerced: "order_items E its = Inr xs \<Longrightarrow> list_all2 (coerced E) its xs"
proof (induction its arbitrary: xs)
  case Nil
  then show ?case by simp
next
  case (Cons i rest)
  from Cons.prems obtain it ys where it: "order_item E i = Inr it"
    and ys: "order_items E rest = Inr ys" and xs: "xs = it # ys"
    by (auto split: sum.splits)
  from it have "coerced E i it" by (rule order_item_coerced)
  moreover from ys have "list_all2 (coerced E) rest ys" by (rule Cons.IH)
  ultimately show ?case using xs by simp
qed

lemma create_order_products:
  "create_order E (Some (st\<lparr>products := ps\<rparr>)) payload =
     (fst (create_order E (Some st) payload),
      map_option (products_update (\<lambda>_. ps)) (snd (create_order E (Some st) payload)))"
  unfolding create_order_def create_document_def
  by (auto simp: Let_def split: sum.splits)

lemma create_order_failure:
  assumes "create_order E db payload = (Inl e, db')"
  shows "db' = db"
    and "db = None \<and> e = StoreUnavailable
         \<or> db \<noteq> None \<and> raw_subtotal E (req_items payload) = Inl e
         \<or> db \<noteq> None \<and> e = ValidationError"
proof -
  show "db' = db"
    using assms unfolding create_order_def create_document_def
    by (auto simp: Let_def split: option.splits sum.splits if_splits)
  show "db = None \<and> e = StoreUnavailable
         \<or> db \<noteq> None \<and> raw_subtotal E (req_items payload) = Inl e
         \<or> db \<noteq> None \<and> e = ValidationError"
  proof (cases db)
    case None
    with assms show ?thesis by (simp add: create_order_def)
  next
    case (Some st)
    show ?thesis
    proof (cases "raw_subtotal E (req_items payload)")
      case (Inl e')
      with assms Some show ?thesis by (auto simp: create_order_def)
    next
      case (Inr s)
      then obtain xs where "order_items E (req_items payload) = Inr xs"
        unfolding raw_subtotal_def by (auto dest: sum_from_order_items)
      with assms Some Inr show ?thesis
        unfolding create_order_def create_document_def
        by (auto simp: Let_def split: if_splits)
    qed
  qed
qed

section \<open>Worked examples\<close>

text \<open>
  The two examples of the specification and the empty order give the totals it states:
  64.20, 17.69 and 6.99. An item priced at five eighths gives an order whose total is
  7.66.
\<close>

lemma two_at_30_created:
  "create_order example_env (Some example_store) (request two_at_30) =
     (Inr (created (rnd (6420 / 100))), stored order_64_20)"
  by code_simp

lemma one_at_10_created:
  "create_order example_env (Some example_store) (request one_at_10) =
     (Inr (created (rnd (1769 / 100))), stored order_17_69)"
  by code_simp

lemma five_eighths_created:
  "create_order example_env (Some example_store) (request five_eighths) =
     (Inr (created (rnd (766 / 100))), stored order_7_66)"
  by code_simp

lemma no_items_created:
  "create_order example_env (Some example_store) (request []) =
     (Inr (created (rnd (699 / 100))),
      stored (example_order [] (Num 0) (rnd (699 / 100)) (Num 0) (rnd (699 / 100))))"
  by code_simp

section \<open>Properties of order creation\<close>

text \<open>
  Claim C1, as amended. The total of the persisted order is the raw subtotal plus the
  shipping charge plus the taxes, rounded to two decimals as one sum; the persisted
  subtotal is the raw subtotal rounded to two decimals. The total is not promised to be
  the sum of the three persisted fields.
\<close>

theorem total_is_rounded_raw_sum:
  assumes "create_order E (Some st) payload = (Inr resp, db')"
  shows "\<exists>s o'. raw_subtotal E (req_items payload) = Inr s
               \<and> placed st db' o'
               \<and> subtotal o' = py_round2 s
               \<and> total o' = py_round2 (fadd (fadd s (shipping o')) (taxes o'))"
  using create_order_success [OF assms] by auto

theorem total_is_rounded_raw_sum_witness:
  "create_order example_env (Some example_store) (request two_at_30) =
     (Inr (created (rnd (6420 / 100))), stored order_64_20)
   \<and> (\<exists>s o'. raw_subtotal example_env (req_items (request two_at_30)) = Inr s
             \<and> placed example_store (stored order_64_20) o'
             \<and> subtotal o' = py_round2 s
             \<and> total o' = py_round2 (fadd (fadd s (shipping o')) (taxes o')))"
  using two_at_30_created total_is_rounded_raw_sum [OF two_at_30_created] by (rule conjI)

text \<open>
  Claim C1 as stated fails. One item priced at 0.625 gives the raw subtotal 0.625, which
  rounds to the even neighbour 0.62; the taxes are 0.04 and shipping is 6.99. The total
  rounds 0.625 + 6.99 + 0.04 to 7.66, while 0.62 + 6.99 + 0.04 is 7.65.
\<close>

theorem total_invariant_counterexample:
  "create_order example_env (Some example_store) (request five_eighths) =
     (Inr (created (rnd (766 / 100))), stored order_7_66)
   \<and> raw_subtotal example_env five_eighths = Inr (Num (5 / 8))
   \<and> subtotal order_7_66 = py_round2 (Num (5 / 8))
   \<and> subtotal order_7_66 = rnd (62 / 100)
   \<and> shipping order_7_66 = rnd (699 / 100)
   \<and> taxes order_7_66 = rnd (4 / 100)
   \<and> total order_7_66 = rnd (766 / 100)
   \<and> fadd (fadd (rnd (62 / 100)) (rnd (699 / 100))) (rnd (4 / 100)) = rnd (765 / 100)
   \<and> \<not> feq (rnd (766 / 100)) (rnd (765 / 100))"
proof -
  have "raw_subtotal example_env five_eighths = Inr (Num (5 / 8))
   \<and> subtotal order_7_66 = py_round2 (Num (5 / 8))
   \<and> subtotal order_7_66 = rnd (62 / 100)
   \<and> shipping order_7_66 = rnd (699 / 100)
   \<and> taxes order_7_66 = rnd (4 / 100)
   \<and> total order_7_66 = rnd (766 / 100)
   \<and> fadd (fadd (rnd (62 / 100)) (rnd (699 / 100))) (rnd (4 / 100)) = rnd (765 / 100)
   \<and> \<not> feq (rnd (766 / 100)) (rnd (765 / 100))"
    by code_simp
  with five_eighths_created show ?thesis by (rule conjI)
qed

text \<open>
  Claim C2. The shipping charge of every created order is 0 exactly when the raw
  subtotal is at least 50, and it is 6.99 otherwise.
\<close>

theorem shipping_rule:
  assumes "create_order E (Some st) payload = (Inr resp, db')"
  shows "\<exists>s o'. raw_subtotal E (req_items payload) = Inr s
               \<and> placed st db' o'
               \<and> (shipping o' = Num 0) = fge s (Num 50)
               \<and> shipping o' = (if fge s (Num 50) then Num 0 else rnd (699 / 100))"
proof -
  from create_order_success [OF assms] obtain s o' where
    "raw_subtotal E (req_items payload) = Inr s" "placed st db' o'"
    "shipping o' = (if fge s (Num 50) then Num 0 else lit_6_99)"
    by auto
  moreover from this have "(shipping o' = Num 0) = fge s (Num 50)"
    using lit_6_99_nonzero by simp
  ultimately show ?thesis unfolding lit_6_99_def by blast
qed

theorem shipping_rule_witness:
  "create_order example_env (Some example_store) (request one_at_10) =
     (Inr (created (rnd (1769 / 100))), stored order_17_69)
   \<and> (\<exists>s o'. raw_subtotal example_env (req_items (request one_at_10)) = Inr s
             \<and> placed example_store (stored order_17_69) o'
             \<and> (shipping o' = Num 0) = fge s (Num 50)
             \<and> shipping o' = (if fge s (Num 50) then Num 0 else rnd (699 / 100)))"
  using one_at_10_created shipping_rule [OF one_at_10_created] by (rule conjI)

text \<open>
  Claim C3. The taxes of every created order are the raw subtotal times 0.07, rounded to
  two decimals; this holds whatever the sign of the subtotal.
\<close>

theorem taxes_rule:
  assumes "create_order E (Some st) payload = (Inr resp, db')"
  shows "\<exists>s o'. raw_subtotal E (req_items payload) = Inr s
               \<and> placed st db' o'
               \<and> taxes o' = py_round2 (fmul s (rnd (7 / 100)))"
  using create_order_success [OF assms] unfolding lit_0_07_def by auto

theorem taxes_rule_witness:
  "create_order example_env (Some example_store) (request two_at_30) =
     (Inr (created (rnd (6420 / 100))), stored order_64_20)
   \<and> (\<exists>s o'. raw_subtotal example_env (req_items (request two_at_30)) = Inr s
             \<and> placed example_store (stored order_64_20) o'
             \<and> taxes o' = py_round2 (fmul s (rnd (7 / 100))))"
  using two_at_30_created taxes_rule [OF two_at_30_created] by (rule conjI)

text \<open>
  Claim C4, as amended. A request to create an order has one of four outcomes. Without a
  store it raises \<^verbatim>\<open>StoreUnavailable\<close>. With a store, it raises the \<^verbatim>\<open>TypeError\<close>,
  \<^verbatim>\<open>ValueError\<close> or \<^verbatim>\<open>OverflowError\<close> of the first price or quantity that cannot be
  coerced, or it is rejected by the schema of the order, or it succeeds, persisting the
  order and returning its identifier and total. Every failure leaves the store as it was.
\<close>

theorem create_order_outcomes:
  assumes "create_order E db payload = (r, db')"
  shows "db = None \<and> r = Inl StoreUnavailable \<and> db' = db
       \<or> (\<exists>e. db \<noteq> None \<and> raw_subtotal E (req_items payload) = Inl e
               \<and> e \<in> {TypeError, ValueError, OverflowError} \<and> r = Inl e \<and> db' = db)
       \<or> db \<noteq> None \<and> r = Inl ValidationError \<and> db' = db
       \<or> (\<exists>st o'. db = Some st \<and> placed st db' o'
               \<and> r = Inr [(''order_id'', PStr (py_str E (PObjectId (Oid (next_id st))))),
                           (''total'', PFloat (total o'))])"
proof (cases r)
  case (Inl e)
  with assms have f: "create_order E db payload = (Inl e, db')" by simp
  have same: "db' = db" using f by (rule create_order_failure(1))
  from create_order_failure(2) [OF f]
  consider "db = None \<and> e = StoreUnavailable"
    | "db \<noteq> None \<and> raw_subtotal E (req_items payload) = Inl e"
    | "db \<noteq> None \<and> e = ValidationError"
    by blast
  then show ?thesis
  proof cases
    case 1
    with Inl same show ?thesis by simp
  next
    case 2
    then have "e \<in> {TypeError, ValueError, OverflowError}"
      unfolding raw_subtotal_def by (auto dest: sum_from_errors)
    with 2 Inl same show ?thesis by blast
  next
    case 3
    with Inl same show ?thesis by simp
  qed
next
  case (Inr resp)
  with assms have "create_order E db payload = (Inr resp, db')" by simp
  from create_order_success [OF this] Inr show ?thesis by blast
qed

theorem create_order_outcomes_witness:
  "create_order example_env (Some example_store) (request []) =
     (Inr (created (rnd (699 / 100))),
      stored (example_order [] (Num 0) (rnd (699 / 100)) (Num 0) (rnd (699 / 100))))
   \<and> (\<exists>st o'. Some example_store = Some st
         \<and> placed st
             (stored (example_order [] (Num 0) (rnd (699 / 100)) (Num 0) (rnd (699 / 100)))) o'
         \<and> created (rnd (699 / 100)) =
             [(''order_id'', PStr (py_str example_env (PObjectId (Oid (next_id st))))),
              (''total'', PFloat (total o'))])"
  using no_items_created create_order_outcomes [OF no_items_created] by simp

text \<open>
  Claim C4 as stated fails. An item whose price is \<^verbatim>\<open>null\<close> makes \<^verbatim>\<open>float\<close> raise
  \<^verbatim>\<open>TypeError\<close>: the store is configured, nothing is persisted, and the error is not
  \<^verbatim>\<open>StoreUnavailable\<close>.
\<close>

theorem unhandled_error_counterexample:
  "create_order example_env (Some example_store) (request [[(''price'', PNone)]]) =
     (Inl TypeError, Some example_store)"
  by code_simp

text \<open>
  Claim C7. Every persisted line item is the coercion of its raw item: the price is the
  raw price as a float, 0 when absent; the quantity is the raw quantity as an integer, 1
  when absent; product identifier and title are strings, empty when absent. The product
  identifier is not looked up: the request has the same outcome whatever products the
  store holds.
\<close>

theorem line_items_coerced:
  assumes "create_order E (Some st) payload = (Inr resp, db')"
  shows "\<exists>o'. placed st db' o'
             \<and> list_all2 (coerced E) (req_items payload) (items o')
             \<and> (\<forall>ps. create_order E (Some (st\<lparr>products := ps\<rparr>)) payload =
                       (Inr resp, map_option (products_update (\<lambda>_. ps)) db'))"
proof -
  from create_order_success [OF assms] obtain its o' where
    its: "order_items E (req_items payload) = Inr its" and o': "items o' = its"
    and placed: "placed st db' o'"
    by auto
  from its o' have "list_all2 (coerced E) (req_items payload) (items o')"
    by (auto dest: order_items_coerced)
  moreover have "\<forall>ps. create_order E (Some (st\<lparr>products := ps\<rparr>)) payload =
                       (Inr resp, map_option (products_update (\<lambda>_. ps)) db')"
    by (simp add: create_order_products assms)
  ultimately show ?thesis using placed by blast
qed

theorem line_items_coerced_witness:
  "create_order example_env (Some example_store) (request one_at_10) =
     (Inr (created (rnd (1769 / 100))), stored order_17_69)
   \<and> (\<exists>o'. placed example_store (stored order_17_69) o'
           \<and> list_all2 (coerced example_env) (req_items (request one_at_10)) (items o')
           \<and> (\<forall>ps. create_order example_env (Some (example_store\<lparr>products := ps\<rparr>))
                      (request one_at_10) =
                    (Inr (created (rnd (1769 / 100))),
                     map_option (products_update (\<lambda>_. ps)) (stored order_17_69))))"
  using one_at_10_created line_items_coerced [OF one_at_10_created] by (rule conjI)

text \<open>
  Claim C8. When the schema of an order is the one the data model describes, every line
  item of a persisted order has a price of at least 0 and a quantity of at least 1.
\<close>

theorem persisted_items_in_bounds:
  assumes "Order_valid E = Order_schema"
    and "create_order E (Some st) payload = (Inr resp, db')"
  shows "\<exists>o'. placed st db' o'
             \<and> list_all (\<lambda>it. fge (price it) (Num 0) \<and> 1 \<le> quantity it) (items o')"
proof -
  from create_order_success [OF assms(2)] obtain o' where
    "Order_valid E o'" "placed st db' o'"
    by auto
  with assms(1) show ?thesis
    unfolding Order_schema_def by auto
qed

theorem persisted_items_in_bounds_witness:
  "Order_valid example_env = Order_schema
   \<and> create_order example_env (Some example_store) (request two_at_30) =
       (Inr (created (rnd (6420 / 100))), stored order_64_20)
   \<and> (\<exists>o'. placed example_store (stored order_64_20) o'
           \<and> list_all (\<lambda>it. fge (price it) (Num 0) \<and> 1 \<le> quantity it) (items o'))"
proof -
  have schema: "Order_valid example_env = Order_schema"
    by (simp add: example_env_def)
  from schema two_at_30_created persisted_items_in_bounds [OF schema two_at_30_created]
  show ?thesis by blast
qed

text \<open>
  Claim C10. The total in the response of a successful request is the total of the order
  it persisted, and the identifier in the response is the one the order is stored under.
\<close>

theorem response_total_is_persisted_total:
  assumes "create_order E (Some st) payload = (Inr resp, db')"
  shows "\<exists>o'. placed st db' o'
             \<and> map_of resp ''total'' = Some (PFloat (total o'))
             \<and> map_of resp ''order_id'' = Some (PStr (py_str E (PObjectId (Oid (next_id st)))))"
  using create_order_success [OF assms] by auto

theorem response_total_is_persisted_total_witness:
  "create_order example_env (Some example_store) (request five_eighths) =
     (Inr (created (rnd (766 / 100))), stored order_7_66)
   \<and> (\<exists>o'. placed example_store (stored order_7_66) o'
           \<and> map_of (created (rnd (766 / 100))) ''total'' = Some (PFloat (total o'))
           \<and> map_of (created (rnd (766 / 100))) ''order_id'' =
               Some (PStr (py_str example_env (PObjectId (Oid (next_id example_store))))))"
  using five_eighths_created response_total_is_persisted_total [OF five_eighths_created]
  by (rule conjI)

section \<open>Properties of the product handlers\<close>

text \<open>
  A regular expression made of literal characters matches a string exactly when the
  string contains it, letter case ignored.
\<close>

lemma match_here_literals:
  "match_here (map Lit q) s = prefix (map to_lower q) (map to_lower s)"
proof (induction q arbitrary: s)
  case Nil
  then show ?case by simp
next
  case (Cons c q)
  show ?case
  proof (cases s)
    case Nil
    then show ?thesis by simp
  next
    case (Cons x xs)
    with Cons.IH [of xs] show ?thesis by auto
  qed
qed

lemma regex_search_literals:
  "regex_search (map Lit q) s = ci_contains q s"
proof (induction s)
  case Nil
  show ?case by (cases q) (simp_all add: ci_contains_def)
next
  case (Cons x xs)
  have "regex_search (map Lit q) (x # xs)
        = (prefix (map to_lower q) (map to_lower (x # xs)) \<or> ci_contains q xs)"
    using Cons.IH by (simp only: regex_search.simps match_here_literals)
  then show ?case by (simp add: ci_contains_def sublist_Cons_right)
qed

lemma literal_char_not_dot: "literal_char c \<Longrightarrow> c \<noteq> CHR ''.''"
  by (auto simp: literal_char_def regex_special_def)

lemma parse_regex_literals: "list_all literal_char q \<Longrightarrow> parse_regex q = Some (map Lit q)"
  by (induction q) (auto simp: literal_char_not_dot)

lemma field_cond_regex:
  assumes "list_all literal_char q" and "\<not> is_array (map_of d k)"
  shows "field_cond (PDict [(''$regex'', PStr q), (''$options'', PStr ''i'')]) (map_of d k)
         = Some (field_contains q d k)"
proof (cases "map_of d k")
  case None
  then show ?thesis
    using assms(1) by (simp add: field_cond_def parse_regex_literals field_contains_def)
next
  case (Some w)
  with assms(2) have "regex_value (map Lit q) w = (case w of PStr s \<Rightarrow> ci_contains q s | _ \<Rightarrow> False)"
    by (cases w) (simp_all add: is_array_def regex_search_literals)
  with Some show ?thesis
    using assms(1) by (simp add: field_cond_def parse_regex_literals field_contains_def)
qed

lemma field_cond_equal:
  assumes "\<not> is_array (map_of d ''category'')"
  shows "field_cond (PStr c) (map_of d ''category'') = Some (category_selected c d)"
proof (cases "map_of d ''category''")
  case None
  then show ?thesis by (simp add: field_cond_def category_selected_def)
next
  case (Some w)
  with assms have "eq_value c w = (w = PStr c)"
    by (cases w) (simp_all add: is_array_def)
  with Some show ?thesis by (simp add: field_cond_def category_selected_def)
qed

lemma text_clause:
  assumes "list_all literal_char q" and "scalar_fields d"
  shows "or_match [regex_cond ''title'' q, regex_cond ''description'' q, regex_cond ''category'' q] d
         = Some (text_selected q d)"
proof -
  have names: "field_name ''title''" "field_name ''description''" "field_name ''category''"
    by (simp_all add: field_name_def)
  from assms have
    "field_cond (PDict [(''$regex'', PStr q), (''$options'', PStr ''i'')]) (map_of d ''title'')
       = Some (field_contains q d ''title'')"
    "field_cond (PDict [(''$regex'', PStr q), (''$options'', PStr ''i'')]) (map_of d ''description'')
       = Some (field_contains q d ''description'')"
    "field_cond (PDict [(''$regex'', PStr q), (''$options'', PStr ''i'')]) (map_of d ''category'')
       = Some (field_contains q d ''category'')"
    by (simp_all add: scalar_fields_def field_cond_regex)
  with names show ?thesis
    by (simp add: regex_cond_def and_option_def or_option_def text_selected_def)
qed

lemma find_one_None:
  "(find_one coll i = None) = (\<forall>d\<in>set coll. map_of d ''_id'' \<noteq> Some (PObjectId i))"
  by (auto simp: find_one_def find_None_iff)

lemma find_one_Some:
  assumes "find_one coll i = Some d"
  shows "map_of d ''_id'' = Some (PObjectId i)" and "d \<noteq> []"
proof -
  from assms show "map_of d ''_id'' = Some (PObjectId i)"
    by (auto simp: find_one_def find_Some_iff)
  then show "d \<noteq> []" by auto
qed

lemma chair_found:
  "ObjectId example_env ''000000000000000000000002'' = Some (Oid 2)
   \<and> find_one (products example_store) (Oid 2) = Some chair"
  by code_simp

lemma chairs_listed:
  "list_products example_env (Some example_store) None (Some ''chair'') 50 =
     Inr [[(''id'', PStr ''000000000000000000000002''),
           (''title'', PStr ''Ergonomic Office Chair''),
           (''description'', PStr ''Lumbar support, breathable mesh, adjustable height and tilt.''),
           (''price'', PFloat (Num 129)),
           (''category'', PStr ''Home''),
           (''image'', PNone),
           (''rating'', PFloat (rnd (44 / 10))),
           (''in_stock'', PBool True)]]"
  by code_simp

text \<open>
  Claim C5, as amended. The free text is a regular expression. When it is not empty and
  holds no character that is special in one, a product whose title, description and
  category are not arrays is selected exactly when one of the three contains the text,
  letter case ignored; with a category given as well, exactly when, in addition, its
  category is that string.
\<close>

theorem text_filter_literal:
  assumes "q \<noteq> []" and "list_all literal_char q" and "scalar_fields d"
  shows "query_matches (filter_dict category (Some q)) d =
           Some ((case category of None \<Rightarrow> True | Some c \<Rightarrow> c = [] \<or> category_selected c d)
                 \<and> text_selected q d)"
proof -
  have free_text: "query_matches (filter_dict None (Some q)) d = Some (text_selected q d)"
    using assms text_clause [OF assms(2,3)]
    by (simp add: filter_dict_def and_option_def)
  show ?thesis
  proof (cases category)
    case None
    with free_text show ?thesis by simp
  next
    case (Some c)
    show ?thesis
    proof (cases "c = []")
      case True
      with Some free_text show ?thesis by (simp add: filter_dict_def)
    next
      case False
      have "field_name ''category''" by (simp add: field_name_def)
      moreover from assms(3) have "field_cond (PStr c) (map_of d ''category'') = Some (category_selected c d)"
        by (simp add: scalar_fields_def field_cond_equal)
      ultimately show ?thesis
        using Some False assms(1) text_clause [OF assms(2,3)]
        by (simp add: filter_dict_def and_option_def)
    qed
  qed
qed

theorem text_filter_literal_witness:
  "''chair'' \<noteq> [] \<and> list_all literal_char ''chair'' \<and> scalar_fields chair
   \<and> query_matches (filter_dict (Some ''Home'') (Some ''chair'')) chair =
       Some ((case Some ''Home'' of None \<Rightarrow> True | Some c \<Rightarrow> c = [] \<or> category_selected c chair)
             \<and> text_selected ''chair'' chair)
   \<and> text_selected ''chair'' chair \<and> category_selected ''Home'' chair"
proof -
  have h: "''chair'' \<noteq> []" "list_all literal_char ''chair''" "scalar_fields chair"
    by code_simp+
  have sel: "text_selected ''chair'' chair" "category_selected ''Home'' chair"
    by code_simp+
  from h sel text_filter_literal [OF h, of "Some ''Home''"] show ?thesis by blast
qed

text \<open>
  Claim C5 as stated fails. The text \<^verbatim>\<open>c.air\<close> selects the chair, whose title matches the
  regular expression, although none of its fields contains \<^verbatim>\<open>c.air\<close>.
\<close>

theorem substring_filter_counterexample:
  "query_matches (filter_dict None (Some ''c.air'')) chair = Some True
   \<and> \<not> text_selected ''c.air'' chair"
  by code_simp

text \<open>
  Claim C6, as amended. Without a store, \<^verbatim>\<open>get_product\<close> raises \<^verbatim>\<open>StoreUnavailable\<close> for
  every identifier. With a store, it raises \<^verbatim>\<open>InvalidIdentifier\<close> exactly when the
  identifier does not parse, \<^verbatim>\<open>NotFound\<close> exactly when it parses and no product is stored
  under it, and otherwise it returns the stored record with the key \<^verbatim>\<open>_id\<close> removed and the
  key \<^verbatim>\<open>id\<close> set to the identifier as a string.
\<close>

theorem get_product_outcomes:
  "get_product E None pid = Inl StoreUnavailable
   \<and> (get_product E (Some st) pid = Inl InvalidIdentifier) = (ObjectId E pid = None)
   \<and> (get_product E (Some st) pid = Inl NotFound) =
       (\<exists>i. ObjectId E pid = Some i
            \<and> (\<forall>d\<in>set (products st). map_of d ''_id'' \<noteq> Some (PObjectId i)))
   \<and> (\<forall>i d. ObjectId E pid = Some i \<and> find_one (products st) i = Some d \<longrightarrow>
         (\<exists>r. get_product E (Some st) pid = Inr r
              \<and> map_of r = (map_of d)(''_id'' := None, ''id'' \<mapsto> PStr (py_str E (PObjectId i)))))"
proof (intro conjI allI impI)
  show "get_product E None pid = Inl StoreUnavailable"
    by (simp add: get_product_def)
  show "(get_product E (Some st) pid = Inl InvalidIdentifier) = (ObjectId E pid = None)"
    by (auto simp: get_product_def split: option.splits)
  show "(get_product E (Some st) pid = Inl NotFound) =
       (\<exists>i. ObjectId E pid = Some i
            \<and> (\<forall>d\<in>set (products st). map_of d ''_id'' \<noteq> Some (PObjectId i)))"
  proof (cases "ObjectId E pid")
    case None
    then show ?thesis by (simp add: get_product_def)
  next
    case (Some i)
    show ?thesis
    proof (cases "find_one (products st) i")
      case None
      with Some show ?thesis
        using find_one_None [of "products st" i] by (simp add: get_product_def)
    next
      case (Some d)
      with \<open>ObjectId E pid = Some i\<close> find_one_Some [OF Some] show ?thesis
        using find_one_None [of "products st" i] by (simp add: get_product_def)
    qed
  qed
next
  fix i d
  assume "ObjectId E pid = Some i \<and> find_one (products st) i = Some d"
  then have i: "ObjectId E pid = Some i" and d: "find_one (products st) i = Some d"
    by simp_all
  from find_one_Some [OF d] have id: "get_none d ''_id'' = PObjectId i" and ne: "d \<noteq> []"
    by (simp_all add: get_none_def get_def)
  let ?r = "AList.update ''id'' (PStr (py_str E (PObjectId i))) (AList.delete ''_id'' d)"
  from i d id ne have "get_product E (Some st) pid = Inr ?r"
    by (simp add: get_product_def)
  moreover have "map_of ?r = (map_of d)(''_id'' := None, ''id'' \<mapsto> PStr (py_str E (PObjectId i)))"
    by (simp add: update_conv' delete_conv')
  ultimately show "\<exists>r. get_product E (Some st) pid = Inr r
      \<and> map_of r = (map_of d)(''_id'' := None, ''id'' \<mapsto> PStr (py_str E (PObjectId i)))"
    by blast
qed

theorem get_product_outcomes_witness:
  "ObjectId example_env ''000000000000000000000002'' = Some (Oid 2)
   \<and> find_one (products example_store) (Oid 2) = Some chair
   \<and> (\<exists>r. get_product example_env (Some example_store) ''000000000000000000000002'' = Inr r
          \<and> map_of r = (map_of chair)(''_id'' := None,
                ''id'' \<mapsto> PStr (py_str example_env (PObjectId (Oid 2)))))
   \<and> get_product example_env None ''000000000000000000000002'' = Inl StoreUnavailable"
  using chair_found get_product_outcomes [of example_env "''000000000000000000000002''" example_store]
  by blast

text \<open>
  Claim C6 as stated fails. Without a store, an identifier that does not parse raises
  \<^verbatim>\<open>StoreUnavailable\<close>, not \<^verbatim>\<open>InvalidIdentifier\<close>.
\<close>

theorem invalid_identifier_counterexample:
  "ObjectId example_env ''chair'' = None
   \<and> get_product example_env None ''chair'' = Inl StoreUnavailable
   \<and> get_product example_env None ''chair'' \<noteq> Inl InvalidIdentifier"
  by code_simp

text \<open>
  Claim C9. An empty category is an absent category, and an empty free text is an absent
  free text: the calls of \<^verbatim>\<open>list_products\<close> return the same.
\<close>

theorem empty_parameter_is_absent:
  "list_products E db (Some []) q limit = list_products E db None q limit
   \<and> list_products E db category (Some []) limit = list_products E db category None limit"
proof -
  have "filter_dict (Some []) q = filter_dict None q"
    and "filter_dict category (Some []) = filter_dict category None"
    by (simp_all add: filter_dict_def)
  then show ?thesis
    by (cases db) (simp_all add: list_products_def)
qed

theorem empty_parameter_is_absent_witness:
  "list_products example_env (Some example_store) (Some []) (Some ''chair'') 50 =
     list_products example_env (Some example_store) None (Some ''chair'') 50
   \<and> list_products example_env (Some example_store) (Some ''Home'') (Some []) 50 =
     list_products example_env (Some example_store) (Some ''Home'') None 50
   \<and> list_products example_env (Some example_store) (Some []) (Some ''chair'') 50 =
     Inr [[(''id'', PStr ''000000000000000000000002''),
           (''title'', PStr ''Ergonomic Office Chair''),
           (''description'', PStr ''Lumbar support, breathable mesh, adjustable height and tilt.''),
           (''price'', PFloat (Num 129)),
           (''category'', PStr ''Home''),
           (''image'', PNone),
           (''rating'', PFloat (rnd (44 / 10))),
           (''in_stock'', PBool True)]]"
  using chairs_listed
    empty_parameter_is_absent [of example_env "Some example_store" "Some ''chair''" 50 "Some ''Home''"]
  by simp

end
